theory Spec2Isabelle
  imports Complex_Main
begin

section \<open>Frame conversions of mavros (ftf\_frame\_conversions.cpp)\<close>

text \<open>
  The C++ type \<^verbatim>\<open>double\<close> is idealised as \<^typ>\<open>real\<close>: every operation is the exact one,
  \<^verbatim>\<open>M_PI\<close> is \<^term>\<open>pi\<close>, and an equality proved here is what the program computes up to
  rounding. The Eigen operations the file calls are written out below as Eigen defines
  them.
\<close>

subsection \<open>Eigen: quaternions\<close>

text \<open>\<^verbatim>\<open>Eigen::Quaterniond\<close>: the four coefficients.\<close>

record Quaterniond =
  qw :: real
  qx :: real
  qy :: real
  qz :: real

text \<open>\<^verbatim>\<open>Eigen::Vector3d\<close>.\<close>

record Vector3d =
  vx :: real
  vy :: real
  vz :: real

text \<open>\<^verbatim>\<open>operator*\<close> of two quaternions: the Hamilton product.\<close>

definition quat_mul :: "Quaterniond \<Rightarrow> Quaterniond \<Rightarrow> Quaterniond" where
  "quat_mul a b = \<lparr>
     qw = qw a * qw b - qx a * qx b - qy a * qy b - qz a * qz b,
     qx = qw a * qx b + qx a * qw b + qy a * qz b - qz a * qy b,
     qy = qw a * qy b + qy a * qw b + qz a * qx b - qx a * qz b,
     qz = qw a * qz b + qz a * qw b + qx a * qy b - qy a * qx b \<rparr>"

definition squaredNorm :: "Quaterniond \<Rightarrow> real" where
  "squaredNorm q = qw q * qw q + qx q * qx q + qy q * qy q + qz q * qz q"

definition norm_q :: "Quaterniond \<Rightarrow> real" where
  "norm_q q = sqrt (squaredNorm q)"

text \<open>
  \<^verbatim>\<open>normalized()\<close>: the coefficients divided by the norm; Eigen leaves a quaternion of
  squared norm zero as it is. (Versions of Eigen that divide without the test differ at the
  zero quaternion only, where the division of doubles yields no number.)
\<close>

definition normalized :: "Quaterniond \<Rightarrow> Quaterniond" where
  "normalized q =
     (let z = squaredNorm q in
      if z > 0
      then \<lparr> qw = qw q / sqrt z, qx = qx q / sqrt z, qy = qy q / sqrt z, qz = qz q / sqrt z \<rparr>
      else q)"

text \<open>\<^verbatim>\<open>Quaterniond(AngleAxisd(angle, axis))\<close> for a unit axis.\<close>

definition quat_from_angle_axis :: "real \<Rightarrow> Vector3d \<Rightarrow> Quaterniond" where
  "quat_from_angle_axis a ax =
     \<lparr> qw = cos (a / 2), qx = sin (a / 2) * vx ax, qy = sin (a / 2) * vy ax,
       qz = sin (a / 2) * vz ax \<rparr>"

definition UnitX :: Vector3d where "UnitX = \<lparr> vx = 1, vy = 0, vz = 0 \<rparr>"
definition UnitY :: Vector3d where "UnitY = \<lparr> vx = 0, vy = 1, vz = 0 \<rparr>"
definition UnitZ :: Vector3d where "UnitZ = \<lparr> vx = 0, vy = 0, vz = 1 \<rparr>"

subsection \<open>Eigen: matrices\<close>

text \<open>
  A dense matrix expression is its entry function; the dimension is given to the operations
  that range over it. A fixed-size \<^verbatim>\<open>std::array\<close> of doubles is a list.
\<close>

type_synonym mat = "nat \<Rightarrow> nat \<Rightarrow> real"

text \<open>A 3x3 matrix from its nine entries, row by row.\<close>

definition mat3 :: "real list \<Rightarrow> mat" where
  "mat3 xs = (\<lambda>i j. if i < 3 \<and> j < 3 then xs ! (3 * i + j) else 0)"

text \<open>\<^verbatim>\<open>Eigen::Map\<close> of a row-major n x n array: the view of the array as a matrix.\<close>

definition EigenMap :: "nat \<Rightarrow> real list \<Rightarrow> mat" where
  "EigenMap n a = (\<lambda>i j. a ! (i * n + j))"

text \<open>Assignment of a matrix expression to the map of the output array.\<close>

definition assign_map :: "nat \<Rightarrow> mat \<Rightarrow> real list" where
  "assign_map n M = map (\<lambda>k. M (k div n) (k mod n)) [0..<n * n]"

definition mat_mul :: "nat \<Rightarrow> mat \<Rightarrow> mat \<Rightarrow> mat" where
  "mat_mul n A B = (\<lambda>i j. \<Sum>k<n. A i k * B k j)"

definition transpose_m :: "mat \<Rightarrow> mat" where
  "transpose_m A = (\<lambda>i j. A j i)"

text \<open>\<^verbatim>\<open>Quaternion::toRotationMatrix()\<close>, with Eigen's temporaries.\<close>

definition toRotationMatrix :: "Quaterniond \<Rightarrow> mat" where
  "toRotationMatrix q =
     (let tx = 2 * qx q; ty = 2 * qy q; tz = 2 * qz q;
          twx = tx * qw q; twy = ty * qw q; twz = tz * qw q;
          txx = tx * qx q; txy = ty * qx q; txz = tz * qx q;
          tyy = ty * qy q; tyz = tz * qy q; tzz = tz * qz q
      in mat3 [1 - (tyy + tzz), txy - twz, txz + twy,
               txy + twz, 1 - (txx + tzz), tyz - twx,
               txz - twy, tyz + twx, 1 - (txx + tyy)])"

text \<open>
  \<^verbatim>\<open>matrix * quaternion\<close> (\<^verbatim>\<open>RotationBase\<close>): the matrix times the rotation matrix of the
  quaternion, which is not normalised.
\<close>

definition mat_times_quat :: "mat \<Rightarrow> Quaterniond \<Rightarrow> mat" where
  "mat_times_quat l r = mat_mul 3 l (toRotationMatrix r)"

text \<open>
  \<^verbatim>\<open>Eigen::Affine3d\<close>: a linear part and a translation. Constructed from a quaternion it is
  the rotation matrix with no translation; applied to a vector it is linear part times
  vector plus translation.
\<close>

record Affine3d =
  linear :: mat
  translation :: Vector3d

definition affine_from_quat :: "Quaterniond \<Rightarrow> Affine3d" where
  "affine_from_quat q =
     \<lparr> linear = toRotationMatrix q, translation = \<lparr> vx = 0, vy = 0, vz = 0 \<rparr> \<rparr>"

definition affine_apply :: "Affine3d \<Rightarrow> Vector3d \<Rightarrow> Vector3d" where
  "affine_apply t v =
     \<lparr> vx = linear t 0 0 * vx v + linear t 0 1 * vy v + linear t 0 2 * vz v + vx (translation t),
       vy = linear t 1 0 * vx v + linear t 1 1 * vy v + linear t 1 2 * vz v + vy (translation t),
       vz = linear t 2 0 * vx v + linear t 2 1 * vy v + linear t 2 2 * vz v + vz (translation t) \<rparr>"

text \<open>
  The comma initialiser \<^verbatim>\<open>R << A, B, C, D\<close> of a 6x6 matrix from four 3x3 blocks, and of a
  9x9 matrix from nine.
\<close>

definition comma2 :: "mat \<Rightarrow> mat \<Rightarrow> mat \<Rightarrow> mat \<Rightarrow> mat" where
  "comma2 A B C D = (\<lambda>i j.
     if i < 3 then (if j < 3 then A i j else B i (j - 3))
     else (if j < 3 then C (i - 3) j else D (i - 3) (j - 3)))"

definition comma3 ::
  "mat \<Rightarrow> mat \<Rightarrow> mat \<Rightarrow> mat \<Rightarrow> mat \<Rightarrow> mat \<Rightarrow> mat \<Rightarrow> mat \<Rightarrow> mat \<Rightarrow> mat" where
  "comma3 A B C D E F G H K = (\<lambda>i j.
     if i < 3 then (if j < 3 then A i j else if j < 6 then B i (j - 3) else C i (j - 6))
     else if i < 6 then
       (if j < 3 then D (i - 3) j else if j < 6 then E (i - 3) (j - 3) else F (i - 3) (j - 6))
     else (if j < 3 then G (i - 6) j else if j < 6 then H (i - 6) (j - 3) else K (i - 6) (j - 6)))"

subsection \<open>The constants of the file\<close>

text \<open>
  Modelled from the spec: \<^verbatim>\<open>quaternion_from_rpy\<close> is defined in another file of the
  repository. The spec describes the NED/ENU rotation as a 180 degree rotation about the
  first axis followed by a 90 degree rotation about the third, and the source's comments
  say the same of \<^verbatim>\<open>quaternion_from_rpy(M_PI, 0.0, M_PI_2)\<close>: the quaternion of yaw about Z
  times that of pitch about Y times that of roll about X.
\<close>

definition quaternion_from_rpy :: "real \<Rightarrow> real \<Rightarrow> real \<Rightarrow> Quaterniond" where
  "quaternion_from_rpy roll pitch yaw =
     quat_mul (quat_mul (quat_from_angle_axis yaw UnitZ) (quat_from_angle_axis pitch UnitY))
       (quat_from_angle_axis roll UnitX)"

definition NED_ENU_Q :: Quaterniond where
  "NED_ENU_Q = quaternion_from_rpy pi 0 (pi / 2)"

definition AIRCRAFT_BASELINK_Q :: Quaterniond where
  "AIRCRAFT_BASELINK_Q = quaternion_from_rpy pi 0 0"

definition NED_ENU_AFFINE :: Affine3d where
  "NED_ENU_AFFINE = affine_from_quat NED_ENU_Q"

definition AIRCRAFT_BASELINK_AFFINE :: Affine3d where
  "AIRCRAFT_BASELINK_AFFINE = affine_from_quat AIRCRAFT_BASELINK_Q"

definition NED_ENU_R :: mat where
  "NED_ENU_R = toRotationMatrix (normalized NED_ENU_Q)"

definition AIRCRAFT_BASELINK_R :: mat where
  "AIRCRAFT_BASELINK_R = toRotationMatrix (normalized AIRCRAFT_BASELINK_Q)"

definition ZEROM3D :: mat where
  "ZEROM3D = (\<lambda>i j. 0)"

text \<open>\<^verbatim>\<open>enum class StaticTF\<close>, declared in the header; the spec lists its four values.\<close>

datatype StaticTF = NED_TO_ENU | ENU_TO_NED | AIRCRAFT_TO_BASELINK | BASELINK_TO_AIRCRAFT

subsection \<open>The transforms\<close>

definition transform_orientation :: "Quaterniond \<Rightarrow> StaticTF \<Rightarrow> Quaterniond" where
  "transform_orientation q transform =
     (case transform of
        NED_TO_ENU \<Rightarrow> quat_mul NED_ENU_Q q
      | ENU_TO_NED \<Rightarrow> quat_mul NED_ENU_Q q
      | AIRCRAFT_TO_BASELINK \<Rightarrow> quat_mul q AIRCRAFT_BASELINK_Q
      | BASELINK_TO_AIRCRAFT \<Rightarrow> quat_mul q AIRCRAFT_BASELINK_Q)"

definition transform_static_frame_vec :: "Vector3d \<Rightarrow> StaticTF \<Rightarrow> Vector3d" where
  "transform_static_frame_vec vec transform =
     (case transform of
        NED_TO_ENU \<Rightarrow> affine_apply NED_ENU_AFFINE vec
      | ENU_TO_NED \<Rightarrow> affine_apply NED_ENU_AFFINE vec
      | AIRCRAFT_TO_BASELINK \<Rightarrow> affine_apply AIRCRAFT_BASELINK_AFFINE vec
      | BASELINK_TO_AIRCRAFT \<Rightarrow> affine_apply AIRCRAFT_BASELINK_AFFINE vec)"

text \<open>\<^verbatim>\<open>Covariance3d\<close>, \<^verbatim>\<open>Covariance6d\<close>, \<^verbatim>\<open>Covariance9d\<close>: arrays of 9, 36 and 81 doubles.\<close>

type_synonym Covariance3d = "real list"
type_synonym Covariance6d = "real list"
type_synonym Covariance9d = "real list"

definition transform_static_frame3 :: "Covariance3d \<Rightarrow> StaticTF \<Rightarrow> Covariance3d" where
  "transform_static_frame3 cov transform =
     (let cov_in = EigenMap 3 cov in
      case transform of
        NED_TO_ENU \<Rightarrow> assign_map 3 (mat_times_quat cov_in NED_ENU_Q)
      | ENU_TO_NED \<Rightarrow> assign_map 3 (mat_times_quat cov_in NED_ENU_Q)
      | AIRCRAFT_TO_BASELINK \<Rightarrow> assign_map 3 (mat_times_quat cov_in AIRCRAFT_BASELINK_Q)
      | BASELINK_TO_AIRCRAFT \<Rightarrow> assign_map 3 (mat_times_quat cov_in AIRCRAFT_BASELINK_Q))"

definition transform_static_frame6 :: "Covariance6d \<Rightarrow> StaticTF \<Rightarrow> Covariance6d" where
  "transform_static_frame6 cov transform =
     (let cov_in = EigenMap 6 cov in
      case transform of
        NED_TO_ENU \<Rightarrow>
          (let R = comma2 NED_ENU_R ZEROM3D ZEROM3D NED_ENU_R
           in assign_map 6 (mat_mul 6 (mat_mul 6 R cov_in) (transpose_m R)))
      | ENU_TO_NED \<Rightarrow>
          (let R = comma2 NED_ENU_R ZEROM3D ZEROM3D NED_ENU_R
           in assign_map 6 (mat_mul 6 (mat_mul 6 R cov_in) (transpose_m R)))
      | AIRCRAFT_TO_BASELINK \<Rightarrow>
          (let R = comma2 AIRCRAFT_BASELINK_R ZEROM3D ZEROM3D AIRCRAFT_BASELINK_R
           in assign_map 6 (mat_mul 6 (mat_mul 6 R cov_in) (transpose_m R)))
      | BASELINK_TO_AIRCRAFT \<Rightarrow>
          (let R = comma2 AIRCRAFT_BASELINK_R ZEROM3D ZEROM3D AIRCRAFT_BASELINK_R
           in assign_map 6 (mat_mul 6 (mat_mul 6 R cov_in) (transpose_m R))))"

definition transform_static_frame9 :: "Covariance9d \<Rightarrow> StaticTF \<Rightarrow> Covariance9d" where
  "transform_static_frame9 cov transform =
     (let cov_in = EigenMap 9 cov in
      case transform of
        NED_TO_ENU \<Rightarrow>
          (let R = comma3 NED_ENU_R ZEROM3D ZEROM3D
                          ZEROM3D NED_ENU_R ZEROM3D
                          ZEROM3D ZEROM3D NED_ENU_R
           in assign_map 9 (mat_mul 9 (mat_mul 9 R cov_in) (transpose_m R)))
      | ENU_TO_NED \<Rightarrow>
          (let R = comma3 NED_ENU_R ZEROM3D ZEROM3D
                          ZEROM3D NED_ENU_R ZEROM3D
                          ZEROM3D ZEROM3D NED_ENU_R
           in assign_map 9 (mat_mul 9 (mat_mul 9 R cov_in) (transpose_m R)))
      | AIRCRAFT_TO_BASELINK \<Rightarrow>
          (let R = comma3 AIRCRAFT_BASELINK_R ZEROM3D ZEROM3D
                          ZEROM3D AIRCRAFT_BASELINK_R ZEROM3D
                          ZEROM3D ZEROM3D AIRCRAFT_BASELINK_R
           in assign_map 9 (mat_mul 9 (mat_mul 9 R cov_in) (transpose_m R)))
      | BASELINK_TO_AIRCRAFT \<Rightarrow>
          (let R = comma3 AIRCRAFT_BASELINK_R ZEROM3D ZEROM3D
                          ZEROM3D AIRCRAFT_BASELINK_R ZEROM3D
                          ZEROM3D ZEROM3D AIRCRAFT_BASELINK_R
           in assign_map 9 (mat_mul 9 (mat_mul 9 R cov_in) (transpose_m R))))"

definition transform_frame_vec :: "Vector3d \<Rightarrow> Quaterniond \<Rightarrow> Vector3d" where
  "transform_frame_vec vec q = (let transformation = affine_from_quat q in affine_apply transformation vec)"

definition transform_frame3 :: "Covariance3d \<Rightarrow> Quaterniond \<Rightarrow> Covariance3d" where
  "transform_frame3 cov q =
     (let cov_in = EigenMap 3 cov in assign_map 3 (mat_times_quat cov_in q))"

definition transform_frame6 :: "Covariance6d \<Rightarrow> Quaterniond \<Rightarrow> Covariance6d" where
  "transform_frame6 cov q =
     (let cov_in = EigenMap 6 cov;
          R_q = toRotationMatrix (normalized q);
          R = comma2 R_q ZEROM3D ZEROM3D R_q
      in assign_map 6 (mat_mul 6 (mat_mul 6 R cov_in) (transpose_m R)))"

definition transform_frame9 :: "Covariance9d \<Rightarrow> Quaterniond \<Rightarrow> Covariance9d" where
  "transform_frame9 cov q =
     (let cov_in = EigenMap 9 cov;
          R_q = toRotationMatrix (normalized q);
          R = comma3 R_q ZEROM3D ZEROM3D
                     ZEROM3D R_q ZEROM3D
                     ZEROM3D ZEROM3D R_q
      in assign_map 9 (mat_mul 9 (mat_mul 9 R cov_in) (transpose_m R)))"

subsection \<open>The sandwich form the spec describes for 3x3 covariances\<close>

text \<open>
  The spec's words for the rotation of a covariance: the product of R, the covariance and
  the transpose of R. Written for the 3x3 case, where the source has a different expression,
  to compare the two.
\<close>

definition spec_sandwich3 :: "mat \<Rightarrow> Covariance3d \<Rightarrow> Covariance3d" where
  "spec_sandwich3 R cov = assign_map 3 (mat_mul 3 (mat_mul 3 R (EigenMap 3 cov)) (transpose_m R))"

text \<open>
  The spec's words for the dynamic transform at size 3: normalise the orientation, take its
  rotation matrix (one block at this size), and apply the sandwich product.
\<close>

definition spec_transform_frame3 :: "Covariance3d \<Rightarrow> Quaterniond \<Rightarrow> Covariance3d" where
  "spec_transform_frame3 cov q = spec_sandwich3 (toRotationMatrix (normalized q)) cov"

subsection \<open>Auxiliary notions for the proofs\<close>

text \<open>Two matrix expressions agree on the n x n entries that an n x n array holds.\<close>

definition agree :: "nat \<Rightarrow> mat \<Rightarrow> mat \<Rightarrow> bool" where
  "agree n A B = (\<forall>i<n. \<forall>j<n. A i j = B i j)"

text \<open>The 3x3 identity.\<close>

definition ident3 :: mat where
  "ident3 = mat3 [1, 0, 0, 0, 1, 0, 0, 0, 1]"

section \<open>Facts about the constants\<close>

lemma NED_ENU_Q_val: "NED_ENU_Q = \<lparr> qw = 0, qx = sqrt 2 / 2, qy = sqrt 2 / 2, qz = 0 \<rparr>"
  by (simp add: NED_ENU_Q_def quaternion_from_rpy_def quat_mul_def quat_from_angle_axis_def
      UnitX_def UnitY_def UnitZ_def cos_45 sin_45)

lemma AIRCRAFT_BASELINK_Q_val: "AIRCRAFT_BASELINK_Q = \<lparr> qw = 0, qx = 1, qy = 0, qz = 0 \<rparr>"
  by (simp add: AIRCRAFT_BASELINK_Q_def quaternion_from_rpy_def quat_mul_def quat_from_angle_axis_def
      UnitX_def UnitY_def UnitZ_def)

lemma squaredNorm_NED: "squaredNorm NED_ENU_Q = 1"
  by (simp add: NED_ENU_Q_val squaredNorm_def)

lemma squaredNorm_AB: "squaredNorm AIRCRAFT_BASELINK_Q = 1"
  by (simp add: AIRCRAFT_BASELINK_Q_val squaredNorm_def)

lemma normalized_unit: "squaredNorm q = 1 \<Longrightarrow> normalized q = q"
  by (simp add: normalized_def)

lemma rot_NED: "toRotationMatrix NED_ENU_Q = mat3 [0, 1, 0, 1, 0, 0, 0, 0, -1]"
  by (simp add: NED_ENU_Q_val toRotationMatrix_def Let_def)

lemma rot_AB: "toRotationMatrix AIRCRAFT_BASELINK_Q = mat3 [1, 0, 0, 0, -1, 0, 0, 0, -1]"
  by (simp add: AIRCRAFT_BASELINK_Q_val toRotationMatrix_def Let_def)

lemma squaredNorm_mul: "squaredNorm (quat_mul a b) = squaredNorm a * squaredNorm b"
  by (simp add: squaredNorm_def quat_mul_def algebra_simps)

section \<open>Matrix algebra\<close>

lemma mat_mul_assoc: "mat_mul n (mat_mul n A B) C = mat_mul n A (mat_mul n B C)"
proof (intro ext)
  fix i j
  have "(\<Sum>k<n. (\<Sum>l<n. A i l * B l k) * C k j) = (\<Sum>k<n. \<Sum>l<n. A i l * B l k * C k j)"
    by (simp add: sum_distrib_right)
  also have "\<dots> = (\<Sum>l<n. \<Sum>k<n. A i l * B l k * C k j)"
    by (rule sum.swap)
  also have "\<dots> = (\<Sum>l<n. A i l * (\<Sum>k<n. B l k * C k j))"
    by (simp add: sum_distrib_left mult.assoc)
  finally show "mat_mul n (mat_mul n A B) C i j = mat_mul n A (mat_mul n B C) i j"
    by (simp add: mat_mul_def)
qed

lemma transpose_mat_mul:
  "transpose_m (mat_mul n A B) = mat_mul n (transpose_m B) (transpose_m A)"
  by (simp add: transpose_m_def mat_mul_def mult.commute)

lemma transpose_transpose: "transpose_m (transpose_m A) = A"
  by (simp add: transpose_m_def)

lemma mat_mul_agree:
  "agree n A A' \<Longrightarrow> agree n B B' \<Longrightarrow> agree n (mat_mul n A B) (mat_mul n A' B')"
  by (simp add: agree_def mat_mul_def)

lemma sum3: "(\<Sum>k<(3::nat). f k) = f 0 + f 1 + f 2"
proof -
  have "(3::nat) = Suc (Suc (Suc 0))" by simp
  then show ?thesis by (simp only: sum.lessThan_Suc) (simp add: numeral_eq_Suc)
qed

lemma sum9: "(\<Sum>k<(9::nat). f k) = f 0 + f 1 + f 2 + f 3 + f 4 + f 5 + f 6 + f 7 + f 8"
proof -
  have "(9::nat) = Suc (Suc (Suc (Suc (Suc (Suc (Suc (Suc (Suc 0))))))))" by simp
  then show ?thesis by (simp only: sum.lessThan_Suc) (simp add: numeral_eq_Suc)
qed

lemma sum6: "(\<Sum>k<(6::nat). f k) = f 0 + f 1 + f 2 + f 3 + f 4 + f 5"
proof -
  have "(6::nat) = Suc (Suc (Suc (Suc (Suc (Suc 0)))))" by simp
  then show ?thesis by (simp only: sum.lessThan_Suc) (simp add: numeral_eq_Suc)
qed

lemma comma2_mul:
  "mat_mul 6 (comma2 A ZEROM3D ZEROM3D A) (comma2 B ZEROM3D ZEROM3D B) =
   comma2 (mat_mul 3 A B) ZEROM3D ZEROM3D (mat_mul 3 A B)"
  apply (intro ext)
  apply (simp add: mat_mul_def sum6 sum3 comma2_def ZEROM3D_def)
  done

lemma comma3_mul:
  "mat_mul 9 (comma3 A ZEROM3D ZEROM3D ZEROM3D A ZEROM3D ZEROM3D ZEROM3D A)
     (comma3 B ZEROM3D ZEROM3D ZEROM3D B ZEROM3D ZEROM3D ZEROM3D B) =
   comma3 (mat_mul 3 A B) ZEROM3D ZEROM3D ZEROM3D (mat_mul 3 A B) ZEROM3D
     ZEROM3D ZEROM3D (mat_mul 3 A B)"
  apply (intro ext)
  apply (simp add: mat_mul_def sum9 sum3 comma3_def ZEROM3D_def)
  done

lemma transpose_comma2:
  "transpose_m (comma2 A ZEROM3D ZEROM3D A) = comma2 (transpose_m A) ZEROM3D ZEROM3D (transpose_m A)"
  by (intro ext) (simp add: transpose_m_def comma2_def ZEROM3D_def)

lemma transpose_comma3:
  "transpose_m (comma3 A ZEROM3D ZEROM3D ZEROM3D A ZEROM3D ZEROM3D ZEROM3D A) =
   comma3 (transpose_m A) ZEROM3D ZEROM3D ZEROM3D (transpose_m A) ZEROM3D
     ZEROM3D ZEROM3D (transpose_m A)"
  by (intro ext) (simp add: transpose_m_def comma3_def ZEROM3D_def)

lemma lt3_cases: "i < (3::nat) \<Longrightarrow> i = 0 \<or> i = 1 \<or> i = 2"
  by arith

lemma mat3_nth:
  "mat3 [a, b, c, d, e, f, g, h, k] i j =
     (if i = 0 then (if j = 0 then a else if j = 1 then b else if j = 2 then c else 0)
      else if i = 1 then (if j = 0 then d else if j = 1 then e else if j = 2 then f else 0)
      else if i = 2 then (if j = 0 then g else if j = 1 then h else if j = 2 then k else 0)
      else 0)"
  by (auto simp: mat3_def dest: lt3_cases)

lemma ident3_eq: "ident3 i j = (if i = j \<and> i < 3 then 1 else 0)"
  by (auto simp: ident3_def mat3_nth)

lemma transpose_ident3: "transpose_m ident3 = ident3"
  by (intro ext) (auto simp: transpose_m_def ident3_eq)

lemma comma2_ident: "i < 6 \<Longrightarrow> j < 6 \<Longrightarrow>
   comma2 ident3 ZEROM3D ZEROM3D ident3 i j = (if i = j then 1 else 0)"
  by (auto simp: comma2_def ident3_eq ZEROM3D_def)

lemma comma3_ident: "i < 9 \<Longrightarrow> j < 9 \<Longrightarrow>
   comma3 ident3 ZEROM3D ZEROM3D ZEROM3D ident3 ZEROM3D ZEROM3D ZEROM3D ident3 i j =
     (if i = j then 1 else 0)"
  by (auto simp: comma3_def ident3_eq ZEROM3D_def)

lemma mat_mul_unit_left:
  assumes "\<And>i j. i < n \<Longrightarrow> j < n \<Longrightarrow> E i j = (if i = j then 1 else 0)"
  shows "agree n (mat_mul n E C) C"
  unfolding agree_def mat_mul_def
proof (intro allI impI)
  fix i j assume i: "i < n" and j: "j < n"
  have "(\<Sum>k<n. E i k * C k j) = (\<Sum>k<n. if k = i then C k j else 0)"
    by (rule sum.cong) (use assms i in auto)
  also have "\<dots> = C i j" using i by simp
  finally show "(\<Sum>k<n. E i k * C k j) = C i j" .
qed

lemma mat_mul_unit_right:
  assumes "\<And>i j. i < n \<Longrightarrow> j < n \<Longrightarrow> E i j = (if i = j then 1 else 0)"
  shows "agree n (mat_mul n C E) C"
  unfolding agree_def mat_mul_def
proof (intro allI impI)
  fix i j assume i: "i < n" and j: "j < n"
  have "(\<Sum>k<n. C i k * E k j) = (\<Sum>k<n. if k = j then C i k else 0)"
    by (rule sum.cong) (use assms j in auto)
  also have "\<dots> = C i j" using j by simp
  finally show "(\<Sum>k<n. C i k * E k j) = C i j" .
qed

lemma NED_sq: "mat_mul 3 (mat3 [0, 1, 0, 1, 0, 0, 0, 0, -1]) (mat3 [0, 1, 0, 1, 0, 0, 0, 0, -1]) = ident3"
  by (intro ext) (simp add: mat_mul_def sum3 mat3_nth ident3_def)

lemma AB_sq: "mat_mul 3 (mat3 [1, 0, 0, 0, -1, 0, 0, 0, -1]) (mat3 [1, 0, 0, 0, -1, 0, 0, 0, -1]) = ident3"
  by (intro ext) (simp add: mat_mul_def sum3 mat3_nth ident3_def)

lemma NED_tr: "transpose_m (mat3 [0, 1, 0, 1, 0, 0, 0, 0, -1]) = mat3 [0, 1, 0, 1, 0, 0, 0, 0, -1]"
  by (intro ext) (simp add: transpose_m_def mat3_nth)

lemma AB_tr: "transpose_m (mat3 [1, 0, 0, 0, -1, 0, 0, 0, -1]) = mat3 [1, 0, 0, 0, -1, 0, 0, 0, -1]"
  by (intro ext) (simp add: transpose_m_def mat3_nth)

lemma EigenMap_assign:
  "i < n \<Longrightarrow> j < n \<Longrightarrow> EigenMap n (assign_map n M) i j = M i j"
proof -
  assume i: "i < n" and j: "j < n"
  have "i * n + j < n * n"
  proof -
    have "i * n + j < i * n + n" using j by simp
    also have "\<dots> = Suc i * n" by simp
    also have "\<dots> \<le> n * n" using i by (metis Suc_leI mult_le_mono1)
    finally show ?thesis .
  qed
  then show ?thesis using i j by (simp add: EigenMap_def assign_map_def)
qed

lemma agree_EigenMap_assign: "agree n (EigenMap n (assign_map n M)) M"
  by (simp add: agree_def EigenMap_assign)

lemma assign_map_cong: "agree n A B \<Longrightarrow> assign_map n A = assign_map n B"
proof -
  assume a: "agree n A B"
  have "\<And>k. k < n * n \<Longrightarrow> A (k div n) (k mod n) = B (k div n) (k mod n)"
  proof -
    fix k assume k: "k < n * n"
    then have n: "0 < n" by (cases n) auto
    have "k div n < n" using k by (simp add: less_mult_imp_div_less)
    moreover have "k mod n < n" using n by simp
    ultimately show "A (k div n) (k mod n) = B (k div n) (k mod n)"
      using a by (simp add: agree_def)
  qed
  then show ?thesis by (simp add: assign_map_def)
qed

lemma assign_EigenMap: "length cov = n * n \<Longrightarrow> assign_map n (EigenMap n cov) = cov"
  by (rule nth_equalityI) (simp_all add: assign_map_def EigenMap_def)

lemma agree_refl: "agree n A A"
  by (simp add: agree_def)

lemma agree_trans: "agree n A B \<Longrightarrow> agree n B C \<Longrightarrow> agree n A C"
  by (simp add: agree_def)

lemma sandwich_twice:
  assumes RR: "\<And>i j. i < n \<Longrightarrow> j < n \<Longrightarrow> mat_mul n R R i j = (if i = j then 1 else 0)"
    and TT: "\<And>i j. i < n \<Longrightarrow> j < n \<Longrightarrow>
               mat_mul n (transpose_m R) (transpose_m R) i j = (if i = j then 1 else 0)"
  shows "agree n (mat_mul n (mat_mul n R (mat_mul n (mat_mul n R C) (transpose_m R))) (transpose_m R)) C"
proof -
  let ?T = "transpose_m R"
  have "mat_mul n (mat_mul n R (mat_mul n (mat_mul n R C) ?T)) ?T =
        mat_mul n (mat_mul n (mat_mul n R R) C) (mat_mul n ?T ?T)"
    by (simp add: mat_mul_assoc)
  moreover have "agree n (mat_mul n (mat_mul n R R) C) C"
    using RR by (rule mat_mul_unit_left)
  moreover have "agree n (mat_mul n C (mat_mul n ?T ?T)) C"
    using TT by (rule mat_mul_unit_right)
  ultimately show ?thesis
    by (metis mat_mul_agree agree_refl agree_trans)
qed

lemma sandwich_roundtrip:
  assumes len: "length cov = n * n"
    and RR: "\<And>i j. i < n \<Longrightarrow> j < n \<Longrightarrow> mat_mul n R R i j = (if i = j then 1 else 0)"
    and TT: "\<And>i j. i < n \<Longrightarrow> j < n \<Longrightarrow>
               mat_mul n (transpose_m R) (transpose_m R) i j = (if i = j then 1 else 0)"
  shows "assign_map n (mat_mul n (mat_mul n R
           (EigenMap n (assign_map n (mat_mul n (mat_mul n R (EigenMap n cov)) (transpose_m R)))))
           (transpose_m R)) = cov"
proof -
  let ?T = "transpose_m R"
  let ?M = "mat_mul n (mat_mul n R (EigenMap n cov)) ?T"
  have "agree n (mat_mul n (mat_mul n R (EigenMap n (assign_map n ?M))) ?T)
                (mat_mul n (mat_mul n R ?M) ?T)"
    by (intro mat_mul_agree agree_refl agree_EigenMap_assign)
  moreover have "agree n (mat_mul n (mat_mul n R ?M) ?T) (EigenMap n cov)"
    using RR TT by (rule sandwich_twice)
  ultimately have "agree n (mat_mul n (mat_mul n R (EigenMap n (assign_map n ?M))) ?T) (EigenMap n cov)"
    by (rule agree_trans)
  then have "assign_map n (mat_mul n (mat_mul n R (EigenMap n (assign_map n ?M))) ?T) =
             assign_map n (EigenMap n cov)"
    by (rule assign_map_cong)
  then show ?thesis using len by (simp add: assign_EigenMap)
qed

lemma right_mul_roundtrip:
  assumes len: "length cov = n * n"
    and RR: "\<And>i j. i < n \<Longrightarrow> j < n \<Longrightarrow> mat_mul n R R i j = (if i = j then 1 else 0)"
  shows "assign_map n (mat_mul n (EigenMap n (assign_map n (mat_mul n (EigenMap n cov) R))) R) = cov"
proof -
  let ?M = "mat_mul n (EigenMap n cov) R"
  have "agree n (mat_mul n (EigenMap n (assign_map n ?M)) R) (mat_mul n ?M R)"
    by (intro mat_mul_agree agree_refl agree_EigenMap_assign)
  moreover have "agree n (mat_mul n ?M R) (EigenMap n cov)"
    unfolding mat_mul_assoc using RR by (rule mat_mul_unit_right)
  ultimately have "agree n (mat_mul n (EigenMap n (assign_map n ?M)) R) (EigenMap n cov)"
    by (rule agree_trans)
  then have "assign_map n (mat_mul n (EigenMap n (assign_map n ?M)) R) = assign_map n (EigenMap n cov)"
    by (rule assign_map_cong)
  then show ?thesis using len by (simp add: assign_EigenMap)
qed

lemma NED_ENU_R_val: "NED_ENU_R = mat3 [0, 1, 0, 1, 0, 0, 0, 0, -1]"
  by (simp add: NED_ENU_R_def normalized_unit squaredNorm_NED rot_NED)

lemma AIRCRAFT_BASELINK_R_val: "AIRCRAFT_BASELINK_R = mat3 [1, 0, 0, 0, -1, 0, 0, 0, -1]"
  by (simp add: AIRCRAFT_BASELINK_R_def normalized_unit squaredNorm_AB rot_AB)

lemma ident3_unit: "i < 3 \<Longrightarrow> j < 3 \<Longrightarrow> ident3 i j = (if i = j then 1 else 0)"
  by (simp add: ident3_eq)

lemma roundtrip3_NED:
  "length cov = 9 \<Longrightarrow>
   assign_map 3 (mat_times_quat (EigenMap 3 (assign_map 3 (mat_times_quat (EigenMap 3 cov) NED_ENU_Q)))
     NED_ENU_Q) = cov"
  unfolding mat_times_quat_def rot_NED
  by (rule right_mul_roundtrip) (simp_all add: NED_sq ident3_unit)

lemma roundtrip3_AB:
  "length cov = 9 \<Longrightarrow>
   assign_map 3 (mat_times_quat (EigenMap 3 (assign_map 3 (mat_times_quat (EigenMap 3 cov) AIRCRAFT_BASELINK_Q)))
     AIRCRAFT_BASELINK_Q) = cov"
  unfolding mat_times_quat_def rot_AB
  by (rule right_mul_roundtrip) (simp_all add: AB_sq ident3_unit)

lemma roundtrip6:
  assumes "length cov = 36" and "mat_mul 3 R R = ident3" and "transpose_m R = R"
  shows "assign_map 6 (mat_mul 6 (mat_mul 6 (comma2 R ZEROM3D ZEROM3D R)
           (EigenMap 6 (assign_map 6 (mat_mul 6 (mat_mul 6 (comma2 R ZEROM3D ZEROM3D R) (EigenMap 6 cov))
              (transpose_m (comma2 R ZEROM3D ZEROM3D R))))))
           (transpose_m (comma2 R ZEROM3D ZEROM3D R))) = cov"
  by (rule sandwich_roundtrip) (simp_all add: assms transpose_comma2 comma2_mul comma2_ident)

lemma roundtrip9:
  assumes "length cov = 81" and "mat_mul 3 R R = ident3" and "transpose_m R = R"
  shows "assign_map 9 (mat_mul 9 (mat_mul 9 (comma3 R ZEROM3D ZEROM3D ZEROM3D R ZEROM3D ZEROM3D ZEROM3D R)
           (EigenMap 9 (assign_map 9 (mat_mul 9 (mat_mul 9
              (comma3 R ZEROM3D ZEROM3D ZEROM3D R ZEROM3D ZEROM3D ZEROM3D R) (EigenMap 9 cov))
              (transpose_m (comma3 R ZEROM3D ZEROM3D ZEROM3D R ZEROM3D ZEROM3D ZEROM3D R))))))
           (transpose_m (comma3 R ZEROM3D ZEROM3D ZEROM3D R ZEROM3D ZEROM3D ZEROM3D R))) = cov"
  by (rule sandwich_roundtrip) (simp_all add: assms transpose_comma3 comma3_mul comma3_ident)

lemma quat_roundtrip_NED:
  "quat_mul NED_ENU_Q (quat_mul NED_ENU_Q q) = \<lparr> qw = - qw q, qx = - qx q, qy = - qy q, qz = - qz q \<rparr>"
  by (simp add: NED_ENU_Q_val quat_mul_def algebra_simps)

lemma quat_roundtrip_AB:
  "quat_mul (quat_mul q AIRCRAFT_BASELINK_Q) AIRCRAFT_BASELINK_Q =
     \<lparr> qw = - qw q, qx = - qx q, qy = - qy q, qz = - qz q \<rparr>"
  by (simp add: AIRCRAFT_BASELINK_Q_val quat_mul_def)

lemma rot_neg:
  "toRotationMatrix \<lparr> qw = - qw q, qx = - qx q, qy = - qy q, qz = - qz q \<rparr> = toRotationMatrix q"
  by (simp add: toRotationMatrix_def Let_def add.commute)

lemma vec_NED: "affine_apply NED_ENU_AFFINE v = \<lparr> vx = vy v, vy = vx v, vz = - vz v \<rparr>"
  by (simp add: affine_apply_def NED_ENU_AFFINE_def affine_from_quat_def rot_NED mat3_nth)

lemma vec_AB: "affine_apply AIRCRAFT_BASELINK_AFFINE v = \<lparr> vx = vx v, vy = - vy v, vz = - vz v \<rparr>"
  by (simp add: affine_apply_def AIRCRAFT_BASELINK_AFFINE_def affine_from_quat_def rot_AB mat3_nth)

lemma sign_cancel: "s * s = (1::real) \<Longrightarrow> (s * a) * (s * b) = a * b"
proof -
  assume s: "s * s = 1"
  have "(s * a) * (s * b) = (s * s) * (a * b)" by (simp add: ac_simps)
  then show ?thesis using s by simp
qed

lemma rot_sign:
  assumes "s * s = (1::real)"
  shows "toRotationMatrix \<lparr> qw = s * qw p, qx = s * qx p, qy = s * qy p, qz = s * qz p \<rparr> =
         toRotationMatrix p"
proof -
  have c: "\<And>a b. 2 * (s * a) * (s * b) = 2 * a * b"
    using sign_cancel [OF assms] by (simp add: mult.assoc)
  show ?thesis by (simp add: toRotationMatrix_def Let_def c)
qed

lemma squaredNorm_nonneg: "0 \<le> squaredNorm q"
  by (simp add: squaredNorm_def)

lemma squaredNorm_zero: "squaredNorm q = 0 \<Longrightarrow> qw q = 0 \<and> qx q = 0 \<and> qy q = 0 \<and> qz q = 0"
proof -
  assume "squaredNorm q = 0"
  then have "(qw q)\<^sup>2 + (qx q)\<^sup>2 + (qy q)\<^sup>2 + (qz q)\<^sup>2 = 0"
    by (simp add: squaredNorm_def power2_eq_square)
  then show ?thesis
    by (simp add: sum_power2_eq_zero_iff add_nonneg_eq_0_iff)
qed

lemma squaredNorm_scale:
  "squaredNorm \<lparr> qw = c * qw q, qx = c * qx q, qy = c * qy q, qz = c * qz q \<rparr> = c * c * squaredNorm q"
  by (simp add: squaredNorm_def algebra_simps)

lemma rot_normalized_scale:
  assumes c: "c \<noteq> 0"
  shows "toRotationMatrix (normalized \<lparr> qw = c * qw q, qx = c * qx q, qy = c * qy q, qz = c * qz q \<rparr>) =
         toRotationMatrix (normalized q)"
proof (cases "squaredNorm q > 0")
  case False
  then have "squaredNorm q = 0" using squaredNorm_nonneg [of q] by simp
  then have "qw q = 0 \<and> qx q = 0 \<and> qy q = 0 \<and> qz q = 0" by (rule squaredNorm_zero)
  then have "\<lparr> qw = c * qw q, qx = c * qx q, qy = c * qy q, qz = c * qz q \<rparr> = q" by simp
  then show ?thesis by simp
next
  case True
  define z where "z = squaredNorm q"
  define s where "s = c / \<bar>c\<bar>"
  have ss: "s * s = 1" using c by (simp add: s_def)
  have z: "z > 0" using True by (simp add: z_def)
  have "c * c > 0" using c by (auto simp: zero_less_mult_iff)
  then have cz: "c * c * z > 0" using z by (rule mult_pos_pos)
  have sq: "sqrt (c * c * z) = \<bar>c\<bar> * sqrt z"
    by (simp add: real_sqrt_mult)
  have d: "\<And>a. c * a / (\<bar>c\<bar> * sqrt z) = s * (a / sqrt z)"
    by (simp add: s_def)
  have "normalized \<lparr> qw = c * qw q, qx = c * qx q, qy = c * qy q, qz = c * qz q \<rparr> =
        \<lparr> qw = s * qw (normalized q), qx = s * qx (normalized q),
          qy = s * qy (normalized q), qz = s * qz (normalized q) \<rparr>"
    using cz z by (simp add: normalized_def squaredNorm_scale z_def [symmetric] sq d)
  then show ?thesis using rot_sign [OF ss] by simp
qed

lemma symmetric_sandwich:
  assumes "agree n C (transpose_m C)"
  shows "agree n (mat_mul n (mat_mul n R C) (transpose_m R))
                 (transpose_m (mat_mul n (mat_mul n R C) (transpose_m R)))"
proof -
  have "transpose_m (mat_mul n (mat_mul n R C) (transpose_m R)) =
        mat_mul n (mat_mul n R (transpose_m C)) (transpose_m R)"
    by (simp add: transpose_mat_mul transpose_transpose mat_mul_assoc)
  moreover have "agree n (mat_mul n (mat_mul n R C) (transpose_m R))
                         (mat_mul n (mat_mul n R (transpose_m C)) (transpose_m R))"
    by (intro mat_mul_agree agree_refl assms)
  ultimately show ?thesis by simp
qed

section \<open>Evaluation and round trips of the transforms\<close>

lemma assign_map3:
  "assign_map 3 M = [M 0 0, M 0 1, M 0 2, M 1 0, M 1 1, M 1 2, M 2 0, M 2 1, M 2 2]"
proof -
  have "[0..<3 * 3] = [0, 1, 2, 3, 4, 5, 6, 7, 8::nat]"
    by (simp add: upt_rec)
  then show ?thesis by (simp add: assign_map_def)
qed

lemma mat_times_quat_entry:
  "mat_times_quat l r i j =
     l i 0 * toRotationMatrix r 0 j + l i 1 * toRotationMatrix r 1 j + l i 2 * toRotationMatrix r 2 j"
  by (simp add: mat_times_quat_def mat_mul_def sum3)

lemma normalized_0200:
  "normalized \<lparr> qw = 0, qx = 2, qy = 0, qz = 0 \<rparr> = \<lparr> qw = 0, qx = 1, qy = 0, qz = 0 \<rparr>"
proof -
  have "sqrt 4 = 2" using real_sqrt_abs2 [of 2] by simp
  then show ?thesis by (simp add: normalized_def squaredNorm_def)
qed

lemma static3_twice_NED:
  "length c3 = 9 \<Longrightarrow>
   transform_static_frame3 (transform_static_frame3 c3 NED_TO_ENU) ENU_TO_NED = c3"
  by (simp add: transform_static_frame3_def roundtrip3_NED)

lemma static3_twice_AB:
  "length c3 = 9 \<Longrightarrow>
   transform_static_frame3 (transform_static_frame3 c3 AIRCRAFT_TO_BASELINK) BASELINK_TO_AIRCRAFT = c3"
  by (simp add: transform_static_frame3_def roundtrip3_AB)

lemma static6_twice_NED:
  "length c6 = 36 \<Longrightarrow>
   transform_static_frame6 (transform_static_frame6 c6 NED_TO_ENU) ENU_TO_NED = c6"
  by (simp add: transform_static_frame6_def Let_def NED_ENU_R_val roundtrip6 NED_sq NED_tr)

lemma static6_twice_AB:
  "length c6 = 36 \<Longrightarrow>
   transform_static_frame6 (transform_static_frame6 c6 AIRCRAFT_TO_BASELINK) BASELINK_TO_AIRCRAFT = c6"
  by (simp add: transform_static_frame6_def Let_def AIRCRAFT_BASELINK_R_val roundtrip6 AB_sq AB_tr)

lemma static9_twice_NED:
  "length c9 = 81 \<Longrightarrow>
   transform_static_frame9 (transform_static_frame9 c9 NED_TO_ENU) ENU_TO_NED = c9"
  by (simp add: transform_static_frame9_def Let_def NED_ENU_R_val roundtrip9 NED_sq NED_tr)

lemma static9_twice_AB:
  "length c9 = 81 \<Longrightarrow>
   transform_static_frame9 (transform_static_frame9 c9 AIRCRAFT_TO_BASELINK) BASELINK_TO_AIRCRAFT = c9"
  by (simp add: transform_static_frame9_def Let_def AIRCRAFT_BASELINK_R_val roundtrip9 AB_sq AB_tr)

lemma vec_twice:
  "transform_static_frame_vec (transform_static_frame_vec v NED_TO_ENU) ENU_TO_NED = v \<and>
   transform_static_frame_vec (transform_static_frame_vec v AIRCRAFT_TO_BASELINK) BASELINK_TO_AIRCRAFT = v"
  by (simp add: transform_static_frame_vec_def vec_NED vec_AB)

lemma orientation_twice:
  "transform_orientation (transform_orientation q NED_TO_ENU) ENU_TO_NED =
     \<lparr> qw = - qw q, qx = - qx q, qy = - qy q, qz = - qz q \<rparr> \<and>
   transform_orientation (transform_orientation q AIRCRAFT_TO_BASELINK) BASELINK_TO_AIRCRAFT =
     \<lparr> qw = - qw q, qx = - qx q, qy = - qy q, qz = - qz q \<rparr>"
  by (simp add: transform_orientation_def quat_roundtrip_NED quat_roundtrip_AB)

lemma static6_symmetric:
  assumes "agree 6 (EigenMap 6 cov) (transpose_m (EigenMap 6 cov))"
  shows "agree 6 (EigenMap 6 (transform_static_frame6 cov tf))
           (transpose_m (EigenMap 6 (transform_static_frame6 cov tf)))"
proof -
  have t: "\<And>M. agree 6 M (transpose_m M) \<Longrightarrow>
             agree 6 (EigenMap 6 (assign_map 6 M)) (transpose_m (EigenMap 6 (assign_map 6 M)))"
    by (simp add: agree_def transpose_m_def EigenMap_assign)
  show ?thesis
    by (cases tf) (simp_all add: transform_static_frame6_def Let_def t symmetric_sandwich assms)
qed

lemma static9_symmetric:
  assumes "agree 9 (EigenMap 9 cov) (transpose_m (EigenMap 9 cov))"
  shows "agree 9 (EigenMap 9 (transform_static_frame9 cov tf))
           (transpose_m (EigenMap 9 (transform_static_frame9 cov tf)))"
proof -
  have t: "\<And>M. agree 9 M (transpose_m M) \<Longrightarrow>
             agree 9 (EigenMap 9 (assign_map 9 M)) (transpose_m (EigenMap 9 (assign_map 9 M)))"
    by (simp add: agree_def transpose_m_def EigenMap_assign)
  show ?thesis
    by (cases tf) (simp_all add: transform_static_frame9_def Let_def t symmetric_sandwich assms)
qed

section \<open>The claims of the specification\<close>

text \<open>
  Claim C1: for every 3x3 covariance and each canonical rotation, the result of the static
  size-3 covariance transform equals the sandwich product of R, the covariance and the
  transpose of R. The source computes the covariance times the rotation matrix instead: on
  the diagonal covariance (1, 2, 3) with the aircraft/base-link selector it returns the
  diagonal (1, -2, -3), where the sandwich product returns (1, 2, 3).
\<close>

theorem static_cov3_right_product:
  "transform_static_frame3 [1, 0, 0, 0, 2, 0, 0, 0, 3] AIRCRAFT_TO_BASELINK =
     [1, 0, 0, 0, - 2, 0, 0, 0, - 3] \<and>
   spec_sandwich3 AIRCRAFT_BASELINK_R [1, 0, 0, 0, 2, 0, 0, 0, 3] = [1, 0, 0, 0, 2, 0, 0, 0, 3]"
  by (simp add: transform_static_frame3_def spec_sandwich3_def assign_map3 mat_times_quat_entry
      rot_AB AIRCRAFT_BASELINK_R_val mat3_nth EigenMap_def mat_mul_def sum3 transpose_m_def)

text \<open>
  Claim C2: the static covariance transform of a symmetric covariance of size 3, 6 or 9 is
  symmetric. For size 3 the source returns, on the symmetric input with rows (1, 2, 3),
  (2, 4, 5), (3, 5, 6) and the NED/ENU selector, the rows (2, 1, -3), (4, 2, -5), (5, 3, -6),
  which are not symmetric. For sizes 6 and 9 symmetry is preserved
  (\<open>static6_symmetric\<close>, \<open>static9_symmetric\<close>).
\<close>

theorem static_cov3_asymmetric:
  "transform_static_frame3 [1, 2, 3, 2, 4, 5, 3, 5, 6] NED_TO_ENU =
     [2, 1, - 3, 4, 2, - 5, 5, 3, - 6]"
  by (simp add: transform_static_frame3_def assign_map3 mat_times_quat_entry
      rot_NED mat3_nth EigenMap_def)

text \<open>
  Claim C3, as amended: applying the static transform with a selector and then with its
  paired reverse selector returns the original vector and the original covariance of size 3,
  6 and 9; for an orientation quaternion q it returns the quaternion with all four
  coefficients negated, which has the same rotation matrix as q.
\<close>

theorem static_roundtrip:
  assumes "length c3 = 9" and "length c6 = 36" and "length c9 = 81"
  shows "transform_orientation (transform_orientation q NED_TO_ENU) ENU_TO_NED =
           \<lparr> qw = - qw q, qx = - qx q, qy = - qy q, qz = - qz q \<rparr> \<and>
         transform_orientation (transform_orientation q AIRCRAFT_TO_BASELINK) BASELINK_TO_AIRCRAFT =
           \<lparr> qw = - qw q, qx = - qx q, qy = - qy q, qz = - qz q \<rparr> \<and>
         toRotationMatrix \<lparr> qw = - qw q, qx = - qx q, qy = - qy q, qz = - qz q \<rparr> =
           toRotationMatrix q \<and>
         transform_static_frame_vec (transform_static_frame_vec v NED_TO_ENU) ENU_TO_NED = v \<and>
         transform_static_frame_vec (transform_static_frame_vec v AIRCRAFT_TO_BASELINK)
           BASELINK_TO_AIRCRAFT = v \<and>
         transform_static_frame3 (transform_static_frame3 c3 NED_TO_ENU) ENU_TO_NED = c3 \<and>
         transform_static_frame3 (transform_static_frame3 c3 AIRCRAFT_TO_BASELINK)
           BASELINK_TO_AIRCRAFT = c3 \<and>
         transform_static_frame6 (transform_static_frame6 c6 NED_TO_ENU) ENU_TO_NED = c6 \<and>
         transform_static_frame6 (transform_static_frame6 c6 AIRCRAFT_TO_BASELINK)
           BASELINK_TO_AIRCRAFT = c6 \<and>
         transform_static_frame9 (transform_static_frame9 c9 NED_TO_ENU) ENU_TO_NED = c9 \<and>
         transform_static_frame9 (transform_static_frame9 c9 AIRCRAFT_TO_BASELINK)
           BASELINK_TO_AIRCRAFT = c9"
  using assms
  by (simp only: orientation_twice rot_neg vec_twice static3_twice_NED static3_twice_AB
      static6_twice_NED static6_twice_AB static9_twice_NED static9_twice_AB simp_thms)

text \<open>
  The round trip at concrete inputs, among them the diagonal covariance (1, 2, 3) of the
  spec's scenario.
\<close>

theorem static_roundtrip_witness:
  "length [1, 0, 0, 0, 2, 0, 0, 0, 3 :: real] = 9 \<and>
   length (replicate 36 (1 :: real)) = 36 \<and>
   length (replicate 81 (1 :: real)) = 81 \<and>
   transform_static_frame3 (transform_static_frame3 [1, 0, 0, 0, 2, 0, 0, 0, 3] NED_TO_ENU)
     ENU_TO_NED = [1, 0, 0, 0, 2, 0, 0, 0, 3] \<and>
   transform_static_frame6 (transform_static_frame6 (replicate 36 1) NED_TO_ENU) ENU_TO_NED =
     replicate 36 1 \<and>
   transform_static_frame9 (transform_static_frame9 (replicate 81 1) NED_TO_ENU) ENU_TO_NED =
     replicate 81 1 \<and>
   transform_static_frame_vec (transform_static_frame_vec \<lparr> vx = 1, vy = 2, vz = 3 \<rparr> NED_TO_ENU)
     ENU_TO_NED = \<lparr> vx = 1, vy = 2, vz = 3 \<rparr> \<and>
   transform_orientation (transform_orientation \<lparr> qw = 1, qx = 0, qy = 0, qz = 0 \<rparr> NED_TO_ENU)
     ENU_TO_NED = \<lparr> qw = - 1, qx = 0, qy = 0, qz = 0 \<rparr>"
proof -
  have h3: "length [1, 0, 0, 0, 2, 0, 0, 0, 3 :: real] = 9" by simp
  have h6: "length (replicate 36 (1 :: real)) = 36" by simp
  have h9: "length (replicate 81 (1 :: real)) = 81" by simp
  show ?thesis
    using h3 h6 h9
      static_roundtrip [OF h3 h6 h9, of "\<lparr> qw = 1, qx = 0, qy = 0, qz = 0 \<rparr>"
        "\<lparr> vx = 1, vy = 2, vz = 3 \<rparr>"]
    by simp
qed

text \<open>
  Claim C3 as stated fails for orientations: the identity quaternion does not come back
  from NED\_TO\_ENU followed by ENU\_TO\_NED.
\<close>

theorem orientation_roundtrip_counterexample:
  "transform_orientation (transform_orientation \<lparr> qw = 1, qx = 0, qy = 0, qz = 0 \<rparr> NED_TO_ENU)
     ENU_TO_NED \<noteq> \<lparr> qw = 1, qx = 0, qy = 0, qz = 0 \<rparr>"
  by (simp add: transform_orientation_def quat_roundtrip_NED)

text \<open>
  Claim C4: for covariances of size 3, 6 and 9, the dynamic covariance transform with the
  canonical NED/ENU quaternion as the supplied rotation returns what the static covariance
  transform returns with selector NED\_TO\_ENU.
\<close>

theorem dynamic_matches_static:
  "transform_frame3 c3 NED_ENU_Q = transform_static_frame3 c3 NED_TO_ENU \<and>
   transform_frame6 c6 NED_ENU_Q = transform_static_frame6 c6 NED_TO_ENU \<and>
   transform_frame9 c9 NED_ENU_Q = transform_static_frame9 c9 NED_TO_ENU"
  by (simp add: transform_frame3_def transform_frame6_def transform_frame9_def
      transform_static_frame3_def transform_static_frame6_def transform_static_frame9_def
      NED_ENU_R_def Let_def)

text \<open>
  Claim C5: the orientation transform returns the canonical NED/ENU quaternion multiplied
  from the left with q for the selectors NED\_TO\_ENU and ENU\_TO\_NED, and q multiplied from
  the right with the canonical aircraft/base-link quaternion for the selectors
  AIRCRAFT\_TO\_BASELINK and BASELINK\_TO\_AIRCRAFT.
\<close>

theorem transform_orientation_sides:
  "transform_orientation q NED_TO_ENU = quat_mul NED_ENU_Q q \<and>
   transform_orientation q ENU_TO_NED = quat_mul NED_ENU_Q q \<and>
   transform_orientation q AIRCRAFT_TO_BASELINK = quat_mul q AIRCRAFT_BASELINK_Q \<and>
   transform_orientation q BASELINK_TO_AIRCRAFT = quat_mul q AIRCRAFT_BASELINK_Q"
  by (simp add: transform_orientation_def)

text \<open>
  Claim C6: for sizes 3, 6 and 9 the dynamic covariance transform normalises q, takes its
  rotation matrix, tiles it and returns the sandwich product. The source does so for sizes 6
  and 9; for size 3 it multiplies the covariance by the rotation matrix of q as supplied: on
  the identity covariance and the quaternion (0, 2, 0, 0) it returns the diagonal
  (1, -7, -7), where the algorithm of the claim returns the identity.
\<close>

theorem dynamic_cov3_not_sandwich:
  "transform_frame3 [1, 0, 0, 0, 1, 0, 0, 0, 1] \<lparr> qw = 0, qx = 2, qy = 0, qz = 0 \<rparr> =
     [1, 0, 0, 0, - 7, 0, 0, 0, - 7] \<and>
   spec_transform_frame3 [1, 0, 0, 0, 1, 0, 0, 0, 1] \<lparr> qw = 0, qx = 2, qy = 0, qz = 0 \<rparr> =
     [1, 0, 0, 0, 1, 0, 0, 0, 1]"
  by (simp add: transform_frame3_def spec_transform_frame3_def spec_sandwich3_def assign_map3
      mat_times_quat_entry normalized_0200 toRotationMatrix_def mat3_nth EigenMap_def mat_mul_def
      sum3 transpose_m_def)

text \<open>
  Claim C7: for every orientation quaternion of norm one and every selector, the result of
  the orientation transform has norm one.
\<close>

theorem orientation_unit_norm:
  "norm_q q = 1 \<Longrightarrow> norm_q (transform_orientation q tf) = 1"
  by (cases tf)
    (simp_all add: norm_q_def transform_orientation_def squaredNorm_mul squaredNorm_NED squaredNorm_AB)

theorem orientation_unit_norm_witness:
  "norm_q \<lparr> qw = 1, qx = 0, qy = 0, qz = 0 \<rparr> = 1 \<and>
   norm_q (transform_orientation \<lparr> qw = 1, qx = 0, qy = 0, qz = 0 \<rparr> NED_TO_ENU) = 1"
proof -
  have h: "norm_q \<lparr> qw = 1, qx = 0, qy = 0, qz = 0 \<rparr> = 1"
    by (simp add: norm_q_def squaredNorm_def)
  show ?thesis using h orientation_unit_norm [OF h, of NED_TO_ENU] by simp
qed

text \<open>
  Claim C8: for orientations, vectors and covariances of size 3, 6 and 9, the result with
  NED\_TO\_ENU is the result with ENU\_TO\_NED, and the result with AIRCRAFT\_TO\_BASELINK is the
  result with BASELINK\_TO\_AIRCRAFT.
\<close>

theorem direction_irrelevant:
  "transform_orientation q NED_TO_ENU = transform_orientation q ENU_TO_NED \<and>
   transform_orientation q AIRCRAFT_TO_BASELINK = transform_orientation q BASELINK_TO_AIRCRAFT \<and>
   transform_static_frame_vec v NED_TO_ENU = transform_static_frame_vec v ENU_TO_NED \<and>
   transform_static_frame_vec v AIRCRAFT_TO_BASELINK = transform_static_frame_vec v BASELINK_TO_AIRCRAFT \<and>
   transform_static_frame3 c3 NED_TO_ENU = transform_static_frame3 c3 ENU_TO_NED \<and>
   transform_static_frame3 c3 AIRCRAFT_TO_BASELINK = transform_static_frame3 c3 BASELINK_TO_AIRCRAFT \<and>
   transform_static_frame6 c6 NED_TO_ENU = transform_static_frame6 c6 ENU_TO_NED \<and>
   transform_static_frame6 c6 AIRCRAFT_TO_BASELINK = transform_static_frame6 c6 BASELINK_TO_AIRCRAFT \<and>
   transform_static_frame9 c9 NED_TO_ENU = transform_static_frame9 c9 ENU_TO_NED \<and>
   transform_static_frame9 c9 AIRCRAFT_TO_BASELINK = transform_static_frame9 c9 BASELINK_TO_AIRCRAFT"
  by (simp add: transform_orientation_def transform_static_frame_vec_def transform_static_frame3_def
      transform_static_frame6_def transform_static_frame9_def)

text \<open>
  Claim C9: the static vector transform maps (x, y, z) to (x, -y, -z) with the
  aircraft/base-link selectors, so (0, 1, 0) to (0, -1, 0), and to (y, x, -z) with the NED/ENU
  selectors.
\<close>

theorem static_vector_values:
  "transform_static_frame_vec \<lparr> vx = x, vy = y, vz = z \<rparr> AIRCRAFT_TO_BASELINK =
     \<lparr> vx = x, vy = - y, vz = - z \<rparr> \<and>
   transform_static_frame_vec \<lparr> vx = x, vy = y, vz = z \<rparr> BASELINK_TO_AIRCRAFT =
     \<lparr> vx = x, vy = - y, vz = - z \<rparr> \<and>
   transform_static_frame_vec \<lparr> vx = 0, vy = 1, vz = 0 \<rparr> AIRCRAFT_TO_BASELINK =
     \<lparr> vx = 0, vy = - 1, vz = 0 \<rparr> \<and>
   transform_static_frame_vec \<lparr> vx = x, vy = y, vz = z \<rparr> NED_TO_ENU =
     \<lparr> vx = y, vy = x, vz = - z \<rparr> \<and>
   transform_static_frame_vec \<lparr> vx = x, vy = y, vz = z \<rparr> ENU_TO_NED =
     \<lparr> vx = y, vy = x, vz = - z \<rparr>"
  by (simp add: transform_static_frame_vec_def vec_NED vec_AB)

text \<open>
  Claim C10: for covariances of size 6 and 9, every quaternion q and every nonzero real c, the
  dynamic covariance transform with the quaternion c times q returns what it returns
  with q.
\<close>

theorem dynamic_cov_scale_invariant:
  assumes "c \<noteq> 0"
  shows "transform_frame6 c6 \<lparr> qw = c * qw q, qx = c * qx q, qy = c * qy q, qz = c * qz q \<rparr> =
           transform_frame6 c6 q \<and>
         transform_frame9 c9 \<lparr> qw = c * qw q, qx = c * qx q, qy = c * qy q, qz = c * qz q \<rparr> =
           transform_frame9 c9 q"
  by (simp only: transform_frame6_def transform_frame9_def rot_normalized_scale [OF assms])

theorem dynamic_cov_scale_invariant_witness:
  "(- 2 :: real) \<noteq> 0 \<and>
   transform_frame6 (replicate 36 1) \<lparr> qw = - 2, qx = - 4, qy = - 6, qz = - 8 \<rparr> =
     transform_frame6 (replicate 36 1) \<lparr> qw = 1, qx = 2, qy = 3, qz = 4 \<rparr> \<and>
   transform_frame9 (replicate 81 1) \<lparr> qw = - 2, qx = - 4, qy = - 6, qz = - 8 \<rparr> =
     transform_frame9 (replicate 81 1) \<lparr> qw = 1, qx = 2, qy = 3, qz = 4 \<rparr>"
proof -
  have h: "(- 2 :: real) \<noteq> 0" by simp
  show ?thesis
    using dynamic_cov_scale_invariant [OF h, of "replicate 36 1" "\<lparr> qw = 1, qx = 2, qy = 3, qz = 4 \<rparr>" "replicate 81 1"]
    by simp
qed

end
